theory Spec2Isabelle
  imports Complex_Main
begin

section \<open>The value model\<close>

text \<open>
  The functions of \<^verbatim>\<open>marvin_Math.h\<close> are templates over a floating-point type
  \<^verbatim>\<open>T\<close>. A finite value of \<^verbatim>\<open>T\<close> is modelled by the real number it
  denotes and arithmetic on finite values is exact: rounding and overflow are outside
  the model. The two operations of the header that can leave the finite values on
  finite operands are kept partial: a division by zero (an infinity or a NaN in the
  source) and the square root of a negative number (a NaN) are \<open>None\<close>. A function
  whose source divides or takes a root therefore returns \<open>real option\<close>, and \<open>None\<close>
  reads "the source returns a non-finite value".
\<close>

definition fdiv :: "real \<Rightarrow> real \<Rightarrow> real option" where
  "fdiv a b = (if b = 0 then None else Some (a / b))"

definition fsqrt :: "real \<Rightarrow> real option" where
  "fsqrt a = (if a < 0 then None else Some (sqrt a))"

section \<open>Interpolation and remapping\<close>

text \<open>\<^verbatim>\<open>T lerp(T start, T end, T ratio)\<close>\<close>

definition lerp :: "real \<Rightarrow> real \<Rightarrow> real \<Rightarrow> real" where
  "lerp start end' ratio = (let interpolated = start + (end' - start) * ratio in interpolated)"

text \<open>\<^verbatim>\<open>T remap(T x, T newMin, T newMax)\<close>\<close>

definition remap :: "real \<Rightarrow> real \<Rightarrow> real \<Rightarrow> real" where
  "remap x newMin newMax = (let rescaled = (x * (newMax - newMin)) + newMin in rescaled)"

text \<open>
  \<^verbatim>\<open>T remap(T x, T srcMin, T srcMax, T newMin, T newMax)\<close>. The division is not
  guarded. A non-finite \<^verbatim>\<open>normalised\<close> stays non-finite through the multiplication and
  the addition of the three-argument \<^verbatim>\<open>remap\<close>, so \<open>None\<close> propagates.
\<close>

definition remap5 :: "real \<Rightarrow> real \<Rightarrow> real \<Rightarrow> real \<Rightarrow> real \<Rightarrow> real option" where
  "remap5 x srcMin srcMax newMin newMax =
     (case fdiv (x - srcMin) (srcMax - srcMin) of
        None \<Rightarrow> None
      | Some normalised \<Rightarrow> Some (remap normalised newMin newMax))"

text \<open>
  Modelled from the spec: \<^verbatim>\<open>marvin::utils::Range<T>\<close> is declared in
  \<^verbatim>\<open>marvin/utils/marvin_Range.h\<close>, which is not among the sources. The spec describes
  it as a pair (min, max) of the same floating type, with no invariant relating the two;
  the header reads its members \<^verbatim>\<open>min\<close> and \<^verbatim>\<open>max\<close>.
\<close>

record Range =
  range_min :: real
  range_max :: real

text \<open>\<^verbatim>\<open>T remap(T x, Range<T> srcRange, Range<T> newRange)\<close>\<close>

definition remap_ranges :: "real \<Rightarrow> Range \<Rightarrow> Range \<Rightarrow> real option" where
  "remap_ranges x srcRange newRange =
     remap5 x (range_min srcRange) (range_max srcRange) (range_min newRange) (range_max newRange)"

text \<open>\<^verbatim>\<open>T remap(T x, Range<T> newRange)\<close>\<close>

definition remap_range :: "real \<Rightarrow> Range \<Rightarrow> real" where
  "remap_range x newRange = remap x (range_min newRange) (range_max newRange)"

section \<open>Root mean square\<close>

text \<open>
  \<^verbatim>\<open>std::accumulate(first, last, init, op)\<close> is the left fold \<open>foldl op init\<close>: the
  accumulator starts at \<open>init\<close> and takes the elements in order. A \<^verbatim>\<open>std::span<T>\<close>
  that is only read is the list of its elements.
\<close>

text \<open>\<^verbatim>\<open>T rms(std::span<T> data)\<close>\<close>

definition rms :: "real list \<Rightarrow> real option" where
  "rms data =
     (if data = [] then Some 0
      else
        (let sum = foldl (\<lambda>acc next. acc + next * next) 0 data in
         case fdiv sum (real (length data)) of
           None \<Rightarrow> None
         | Some mean \<Rightarrow> fsqrt mean))"

text \<open>The lambda \<^verbatim>\<open>getChannelMean\<close> of the multichannel \<^verbatim>\<open>rms\<close>.\<close>

definition getChannelMean :: "real list \<Rightarrow> real option" where
  "getChannelMean channel =
     (if channel = [] then Some 0
      else
        (let sum = foldl (\<lambda>acc next. acc + next * next) 0 channel in
         fdiv sum (real (length channel))))"

text \<open>
  \<^verbatim>\<open>T rms(std::span<std::span<T>> data)\<close>. The accumulator of the outer fold is a
  value of \<^verbatim>\<open>T\<close>; it is non-finite as soon as one channel mean is.
\<close>

definition rms_channels :: "real list list \<Rightarrow> real option" where
  "rms_channels data =
     (if data = [] then Some 0
      else
        (let sum = foldl (\<lambda>acc next.
                 case acc of
                   None \<Rightarrow> None
                 | Some a \<Rightarrow> (case getChannelMean next of None \<Rightarrow> None | Some m \<Rightarrow> Some (a + m)))
               (Some 0) data in
         case sum of
           None \<Rightarrow> None
         | Some s \<Rightarrow>
             (case fdiv s (real (length data)) of
                None \<Rightarrow> None
              | Some mean \<Rightarrow> fsqrt mean)))"

section \<open>Root mean square on every value of the floating type\<close>

text \<open>
  A sample handed to \<^verbatim>\<open>rms\<close> need not be finite. Here a value of \<^verbatim>\<open>T\<close> is
  a finite number, one of the two infinities or a NaN, and the operations follow
  IEEE 754 on the infinities and on NaN; on finite operands they are exact as before
  (no rounding, no overflow, one zero).
\<close>

datatype fvalue = Finite real | PosInf | NegInf | NaN

text \<open>\<^verbatim>\<open>a + b\<close>: a NaN operand gives NaN, and so do two infinities of opposite sign.\<close>

fun T_add :: "fvalue \<Rightarrow> fvalue \<Rightarrow> fvalue" where
  "T_add NaN _ = NaN"
| "T_add _ NaN = NaN"
| "T_add PosInf NegInf = NaN"
| "T_add NegInf PosInf = NaN"
| "T_add PosInf _ = PosInf"
| "T_add _ PosInf = PosInf"
| "T_add NegInf _ = NegInf"
| "T_add _ NegInf = NegInf"
| "T_add (Finite a) (Finite b) = Finite (a + b)"

text \<open>The sign of a value that is not NaN: \<open>-1\<close>, \<open>0\<close> or \<open>1\<close>.\<close>

fun T_sgn :: "fvalue \<Rightarrow> real" where
  "T_sgn (Finite a) = sgn a"
| "T_sgn PosInf = 1"
| "T_sgn NegInf = - 1"
| "T_sgn NaN = 0"

text \<open>
  \<^verbatim>\<open>a * b\<close>: a NaN operand gives NaN, and so does an infinity times zero; any other
  product with an infinity is the infinity of the product of the signs.
\<close>

fun T_mul :: "fvalue \<Rightarrow> fvalue \<Rightarrow> fvalue" where
  "T_mul NaN _ = NaN"
| "T_mul _ NaN = NaN"
| "T_mul (Finite a) (Finite b) = Finite (a * b)"
| "T_mul a b =
     (if T_sgn a * T_sgn b = 0 then NaN
      else if 0 < T_sgn a * T_sgn b then PosInf else NegInf)"

text \<open>
  \<^verbatim>\<open>a / static_cast<T>(n)\<close> for a \<^verbatim>\<open>size_t n\<close>: the divisor is a finite number
  that is not negative, and a positive zero when \<open>n = 0\<close>.
\<close>

fun T_div_size :: "fvalue \<Rightarrow> nat \<Rightarrow> fvalue" where
  "T_div_size NaN n = NaN"
| "T_div_size PosInf n = PosInf"
| "T_div_size NegInf n = NegInf"
| "T_div_size (Finite a) n =
     (if n = 0 then (if a = 0 then NaN else if 0 < a then PosInf else NegInf)
      else Finite (a / real n))"

text \<open>\<^verbatim>\<open>std::sqrt\<close>: NaN on NaN and on anything negative.\<close>

fun T_sqrt :: "fvalue \<Rightarrow> fvalue" where
  "T_sqrt NaN = NaN"
| "T_sqrt PosInf = PosInf"
| "T_sqrt NegInf = NaN"
| "T_sqrt (Finite a) = (if a < 0 then NaN else Finite (sqrt a))"

text \<open>\<^verbatim>\<open>a >= b\<close>: false as soon as one side is a NaN.\<close>

fun T_ge :: "fvalue \<Rightarrow> fvalue \<Rightarrow> bool" where
  "T_ge NaN _ = False"
| "T_ge _ NaN = False"
| "T_ge PosInf _ = True"
| "T_ge _ NegInf = True"
| "T_ge NegInf _ = False"
| "T_ge _ PosInf = False"
| "T_ge (Finite a) (Finite b) = (b \<le> a)"

text \<open>\<^verbatim>\<open>T rms(std::span<T> data)\<close> on these values.\<close>

definition rms_T :: "fvalue list \<Rightarrow> fvalue" where
  "rms_T data =
     (if data = [] then Finite 0
      else
        (let sum = foldl (\<lambda>acc next. T_add acc (T_mul next next)) (Finite 0) data;
             mean = T_div_size sum (length data)
         in T_sqrt mean))"

text \<open>The lambda \<^verbatim>\<open>getChannelMean\<close> on these values.\<close>

definition getChannelMean_T :: "fvalue list \<Rightarrow> fvalue" where
  "getChannelMean_T channel =
     (if channel = [] then Finite 0
      else
        (let sum = foldl (\<lambda>acc next. T_add acc (T_mul next next)) (Finite 0) channel
         in T_div_size sum (length channel)))"

text \<open>\<^verbatim>\<open>T rms(std::span<std::span<T>> data)\<close> on these values.\<close>

definition rms_channels_T :: "fvalue list list \<Rightarrow> fvalue" where
  "rms_channels_T data =
     (if data = [] then Finite 0
      else
        (let sum = foldl (\<lambda>acc next. T_add acc (getChannelMean_T next)) (Finite 0) data;
             mean = T_div_size sum (length data)
         in T_sqrt mean))"

section \<open>Normalised sinc\<close>

text \<open>
  Modelled from the spec: the concept \<^verbatim>\<open>FloatType\<close> is declared in
  \<^verbatim>\<open>marvin/library/marvin_Concepts.h\<close>, which is not among the sources. The spec
  describes it as the constraint that admits the host's floating-point types and
  nothing else; those are the three below.
\<close>

datatype float_type = Float | Double | LongDouble

text \<open>
  \<^verbatim>\<open>static constexpr auto epsilon{ static_cast<T>(1e-6) }\<close>. The literal
  \<^verbatim>\<open>1e-6\<close> is a \<^verbatim>\<open>double\<close>: the binary64 number nearest to \<open>10\<^sup>-\<^sup>6\<close>, which
  is \<open>4722366482869645 / 2\<^sup>7\<^sup>2\<close>. The cast to \<^verbatim>\<open>long double\<close> keeps that value and
  the cast to \<^verbatim>\<open>float\<close> rounds it to the nearest binary32 number,
  \<open>8796093 / 2\<^sup>4\<^sup>3\<close>. Both lie below \<open>10\<^sup>-\<^sup>6\<close>.
\<close>

definition epsilon :: "float_type \<Rightarrow> real" where
  "epsilon T =
     (case T of
        Float \<Rightarrow> 8796093 / 2 ^ 43
      | Double \<Rightarrow> 4722366482869645 / 2 ^ 72
      | LongDouble \<Rightarrow> 4722366482869645 / 2 ^ 72)"

text \<open>\<^verbatim>\<open>T sinc(T x)\<close>, with the type \<^verbatim>\<open>T\<close> it is instantiated at.\<close>

definition sinc :: "float_type \<Rightarrow> real \<Rightarrow> real option" where
  "sinc T x =
     (if \<bar>x\<bar> < epsilon T then Some 1
      else (let xPi = x * pi in fdiv (sin xPi) xPi))"

section \<open>Views over caller-owned memory\<close>

text \<open>
  Memory is a store of values of \<^verbatim>\<open>T\<close>, addressed in units of one \<^verbatim>\<open>T\<close>. A
  \<^verbatim>\<open>std::span\<close> is a base address and an element count and owns nothing. Its
  element type is part of its C++ type, so there is one record for
  \<^verbatim>\<open>std::span<T>\<close> and one for \<^verbatim>\<open>std::span<std::complex<T>>\<close>. The count of a
  span is the number of elements of an array that exists in the address space, so
  doubling it cannot wrap a \<^verbatim>\<open>size_t\<close>; counts and addresses are natural numbers.
\<close>

type_synonym memory = "nat \<Rightarrow> real"

record span =
  span_data :: nat
  span_size :: nat

record complex_span =
  cspan_data :: nat
  cspan_size :: nat

text \<open>
  \<^verbatim>\<open>operator[]\<close> of the two spans. An index at or beyond the count is outside the
  view (\<open>None\<close>). The C++ standard lays a \<^verbatim>\<open>std::complex<T>\<close> out as an array of two
  \<^verbatim>\<open>T\<close>, the real part first: element \<open>i\<close> of a complex span at base \<open>p\<close> occupies
  the cells \<open>p + 2 * i\<close> and \<open>p + 2 * i + 1\<close>.
\<close>

definition span_at :: "memory \<Rightarrow> span \<Rightarrow> nat \<Rightarrow> real option" where
  "span_at mem s i = (if i < span_size s then Some (mem (span_data s + i)) else None)"

definition complex_span_at :: "memory \<Rightarrow> complex_span \<Rightarrow> nat \<Rightarrow> complex option" where
  "complex_span_at mem s i =
     (if i < cspan_size s
      then Some (Complex (mem (cspan_data s + 2 * i)) (mem (cspan_data s + 2 * i + 1)))
      else None)"

text \<open>
  \<^verbatim>\<open>assert\<close> aborts in a build without \<^verbatim>\<open>NDEBUG\<close> and is compiled out of a
  build with it.
\<close>

datatype build = Debug | Release

datatype error = AssertionFailed

text \<open>\<^verbatim>\<open>std::span<std::complex<T>> interleavedToComplexView(std::span<T> data)\<close>\<close>

definition interleavedToComplexView :: "build \<Rightarrow> span \<Rightarrow> error + complex_span" where
  "interleavedToComplexView b data =
     (if b = Debug \<and> span_size data mod 2 \<noteq> 0 then Inl AssertionFailed
      else
        (let complexView = \<lparr>cspan_data = span_data data, cspan_size = span_size data div 2\<rparr>
         in Inr complexView))"

text \<open>\<^verbatim>\<open>std::span<T> complexViewToInterleaved(std::span<std::complex<T>> data)\<close>\<close>

definition complexViewToInterleaved :: "complex_span \<Rightarrow> span" where
  "complexViewToInterleaved data =
     (let interleavedView = \<lparr>span_data = cspan_data data, span_size = cspan_size data * 2\<rparr>
      in interleavedView)"

text \<open>
  The elements a view shows, in element order: what iterating the span from
  \<^verbatim>\<open>begin()\<close> to \<^verbatim>\<open>end()\<close> reads from the store.
\<close>

definition span_elems :: "memory \<Rightarrow> span \<Rightarrow> real list" where
  "span_elems mem s = map (\<lambda>i. mem (span_data s + i)) [0..<span_size s]"

definition complex_span_elems :: "memory \<Rightarrow> complex_span \<Rightarrow> complex list" where
  "complex_span_elems mem s =
     map (\<lambda>i. Complex (mem (cspan_data s + 2 * i)) (mem (cspan_data s + 2 * i + 1)))
       [0..<cspan_size s]"

section \<open>Sums of squares\<close>

lemma foldl_squares:
  "foldl (\<lambda>acc next. acc + next * next) (a::real) xs = a + (\<Sum>x\<leftarrow>xs. x\<^sup>2)"
  by (induction xs arbitrary: a) (simp_all add: add.assoc power2_eq_square)

lemma sum_squares_nonneg: "0 \<le> (\<Sum>x\<leftarrow>xs. (x::real)\<^sup>2)"
  by (induction xs) simp_all

lemma getChannelMean_value:
  "getChannelMean ch = Some (if ch = [] then 0 else (\<Sum>x\<leftarrow>ch. x\<^sup>2) / real (length ch))"
  by (simp add: getChannelMean_def fdiv_def foldl_squares)

lemma foldl_channel_means:
  "foldl (\<lambda>acc next.
        case acc of
          None \<Rightarrow> None
        | Some a \<Rightarrow> (case getChannelMean next of None \<Rightarrow> None | Some m \<Rightarrow> Some (a + m)))
     (Some a) data
   = Some (a + (\<Sum>ch\<leftarrow>data. if ch = [] then 0 else (\<Sum>x\<leftarrow>ch. x\<^sup>2) / real (length ch)))"
proof (induction data arbitrary: a)
  case Nil
  show ?case by simp
next
  case (Cons ch data)
  show ?case by (simp add: getChannelMean_value Cons.IH)
qed

lemma sum_channel_means_nonneg:
  "0 \<le> (\<Sum>ch\<leftarrow>data. if ch = [] then 0 else (\<Sum>x\<leftarrow>ch. x\<^sup>2) / real (length ch))"
  by (induction data) (simp_all add: sum_squares_nonneg)

text \<open>
  The guards of the source keep both divisions away from zero, and a mean of squares is
  never negative, so neither \<^verbatim>\<open>rms\<close> ever leaves the finite values.
\<close>

lemma rms_value:
  "xs \<noteq> [] \<Longrightarrow> rms xs = Some (sqrt ((\<Sum>x\<leftarrow>xs. x\<^sup>2) / real (length xs)))"
proof -
  assume ne: "xs \<noteq> []"
  have "0 \<le> (\<Sum>x\<leftarrow>xs. x\<^sup>2) / real (length xs)"
    by (simp add: sum_squares_nonneg)
  with ne show ?thesis
    by (simp add: rms_def fdiv_def fsqrt_def foldl_squares Let_def not_less [symmetric])
qed

lemma rms_channels_value:
  "data \<noteq> [] \<Longrightarrow>
     rms_channels data =
       Some (sqrt ((\<Sum>ch\<leftarrow>data. if ch = [] then 0 else (\<Sum>x\<leftarrow>ch. x\<^sup>2) / real (length ch))
                   / real (length data)))"
proof -
  assume ne: "data \<noteq> []"
  have "0 \<le> (\<Sum>ch\<leftarrow>data. if ch = [] then 0 else (\<Sum>x\<leftarrow>ch. x\<^sup>2) / real (length ch))
                 / real (length data)"
    by (simp add: sum_channel_means_nonneg)
  with ne show ?thesis
    by (simp add: rms_channels_def fdiv_def fsqrt_def foldl_channel_means Let_def
        not_less [symmetric])
qed

section \<open>The multichannel root mean square\<close>

text \<open>
  C1. For every non-empty sequence of channels, the multichannel \<^verbatim>\<open>rms\<close> returns
  the square root of the average over all channels of each channel's mean squared value,
  an empty channel counting as 0. On the channels \<open>[[1, 1], [3, 3]]\<close> it returns
  \<open>sqrt 5\<close>, which is not the average of the two single-channel values (1 and 3).
\<close>

theorem rms_channels_mean_of_mean_squares:
  "(data \<noteq> [] \<longrightarrow>
      rms_channels data =
        Some (sqrt ((\<Sum>ch\<leftarrow>data. if ch = [] then 0 else (\<Sum>x\<leftarrow>ch. x\<^sup>2) / real (length ch))
                    / real (length data))))
   \<and> rms_channels [[1, 1], [3, 3]] = Some (sqrt 5)
   \<and> (\<exists>l r. rms [1, 1] = Some l \<and> rms [3, 3] = Some r
          \<and> rms_channels [[1, 1], [3, 3]] \<noteq> Some ((l + r) / 2))"
proof (intro conjI impI)
  assume "data \<noteq> []"
  then show "rms_channels data =
        Some (sqrt ((\<Sum>ch\<leftarrow>data. if ch = [] then 0 else (\<Sum>x\<leftarrow>ch. x\<^sup>2) / real (length ch))
                    / real (length data)))"
    by (rule rms_channels_value)
next
  show c: "rms_channels [[1, 1], [3, 3]] = Some (sqrt 5)"
    by (simp add: rms_channels_value)
  have l: "rms [1, 1] = Some 1"
    by (simp add: rms_value)
  have "sqrt 9 = 3"
    using real_sqrt_abs [of 3] by simp
  then have r: "rms [3, 3] = Some 3"
    by (simp add: rms_value)
  have "sqrt 5 \<noteq> 2"
  proof
    assume "sqrt 5 = 2"
    then have "(sqrt 5)\<^sup>2 = 2\<^sup>2" by simp
    then show False by simp
  qed
  with c l r show "\<exists>l r. rms [1, 1] = Some l \<and> rms [3, 3] = Some r
          \<and> rms_channels [[1, 1], [3, 3]] \<noteq> Some ((l + r) / 2)"
    by simp
qed

theorem rms_channels_mean_of_mean_squares_witness:
  "rms_channels [[], [2]] = Some (sqrt 2)"
  using rms_channels_mean_of_mean_squares [of "[[], [2]]"] by simp

section \<open>The single-sequence root mean square\<close>

text \<open>
  C5. The single-sequence \<^verbatim>\<open>rms\<close> returns exactly 0 on an empty input (a finite
  value, not a NaN). On a non-empty input \<open>x\<^sub>1, \<dots>, x\<^sub>n\<close> it returns
  \<open>sqrt ((x\<^sub>1\<^sup>2 + \<dots> + x\<^sub>n\<^sup>2) / n)\<close>, the sum being accumulated from 0 in the
  element type, one element after the other in element order.
\<close>

theorem rms_root_mean_square:
  "rms [] = Some 0
   \<and> (xs \<noteq> [] \<longrightarrow>
        rms xs = Some (sqrt ((\<Sum>x\<leftarrow>xs. x\<^sup>2) / real (length xs)))
      \<and> rms xs = Some (sqrt (foldl (\<lambda>acc x. acc + x * x) 0 xs / real (length xs))))"
proof (intro conjI impI)
  show "rms [] = Some 0"
    by (simp add: rms_def)
next
  assume ne: "xs \<noteq> []"
  then show v: "rms xs = Some (sqrt ((\<Sum>x\<leftarrow>xs. x\<^sup>2) / real (length xs)))"
    by (rule rms_value)
  show "rms xs = Some (sqrt (foldl (\<lambda>acc x. acc + x * x) 0 xs / real (length xs)))"
    by (simp add: v foldl_squares)
qed

theorem rms_root_mean_square_witness: "rms [3, 4, 0, 0] = Some (5 / 2)"
proof -
  have "sqrt (25 / 4) = 5 / 2"
    using real_sqrt_abs [of "5 / 2"] by (simp add: power2_eq_square)
  then show ?thesis
    using rms_root_mean_square [of "[3, 4, 0, 0]"] by simp
qed

section \<open>Sign of the root mean square\<close>

lemma T_ge_zero_iff: "T_ge v (Finite 0) \<longleftrightarrow> (v = PosInf \<or> (\<exists>a. v = Finite a \<and> 0 \<le> a))"
  by (cases v) simp_all

lemma T_square_nonneg: "x \<noteq> NaN \<Longrightarrow> T_ge (T_mul x x) (Finite 0)"
  by (cases x) simp_all

lemma T_add_nonneg:
  "T_ge a (Finite 0) \<Longrightarrow> T_ge b (Finite 0) \<Longrightarrow> T_ge (T_add a b) (Finite 0)"
  by (auto simp: T_ge_zero_iff)

lemma T_div_size_nonneg: "T_ge a (Finite 0) \<Longrightarrow> 0 < n \<Longrightarrow> T_ge (T_div_size a n) (Finite 0)"
  by (auto simp: T_ge_zero_iff)

lemma T_sqrt_nonneg: "T_ge a (Finite 0) \<Longrightarrow> T_ge (T_sqrt a) (Finite 0)"
  by (auto simp: T_ge_zero_iff)

lemma foldl_T_squares_nonneg:
  "\<forall>x\<in>set xs. x \<noteq> NaN \<Longrightarrow> T_ge acc (Finite 0) \<Longrightarrow>
     T_ge (foldl (\<lambda>acc next. T_add acc (T_mul next next)) acc xs) (Finite 0)"
  by (induction xs arbitrary: acc) (simp_all add: T_add_nonneg T_square_nonneg)

lemma getChannelMean_T_nonneg:
  "\<forall>x\<in>set ch. x \<noteq> NaN \<Longrightarrow> T_ge (getChannelMean_T ch) (Finite 0)"
  by (simp add: getChannelMean_T_def foldl_T_squares_nonneg T_div_size_nonneg)

lemma foldl_T_channel_means_nonneg:
  "\<forall>ch\<in>set data. \<forall>x\<in>set ch. x \<noteq> NaN \<Longrightarrow> T_ge acc (Finite 0) \<Longrightarrow>
     T_ge (foldl (\<lambda>acc next. T_add acc (getChannelMean_T next)) acc data) (Finite 0)"
  by (induction data arbitrary: acc) (simp_all add: T_add_nonneg getChannelMean_T_nonneg)

lemma foldl_T_empty_channels:
  "\<forall>ch\<in>set data. ch = [] \<Longrightarrow>
     foldl (\<lambda>acc next. T_add acc (getChannelMean_T next)) (Finite a) data = Finite a"
  by (induction data) (simp_all add: getChannelMean_T_def)

lemma foldl_T_NaN: "foldl (\<lambda>acc next. T_add acc (T_mul next next)) NaN xs = NaN"
  by (induction xs) simp_all

text \<open>
  On finite samples the two models of \<^verbatim>\<open>rms\<close> agree: whatever the exact model
  returns, the model on every value of \<^verbatim>\<open>T\<close> returns as a finite value.
\<close>

lemma foldl_T_finite:
  "foldl (\<lambda>acc next. T_add acc (T_mul next next)) (Finite a) (map Finite xs)
     = Finite (foldl (\<lambda>acc next. acc + next * next) a xs)"
  by (induction xs arbitrary: a) simp_all

lemma rms_T_finite: "rms xs = Some y \<Longrightarrow> rms_T (map Finite xs) = Finite y"
  by (auto simp: rms_def rms_T_def fdiv_def fsqrt_def foldl_T_finite Let_def
      split: if_splits)

lemma getChannelMean_T_finite:
  "getChannelMean ch = Some m \<Longrightarrow> getChannelMean_T (map Finite ch) = Finite m"
  by (auto simp: getChannelMean_def getChannelMean_T_def fdiv_def foldl_T_finite Let_def
      split: if_splits)

lemma foldl_T_channels_finite:
  "foldl (\<lambda>acc next.
        case acc of
          None \<Rightarrow> None
        | Some a \<Rightarrow> (case getChannelMean next of None \<Rightarrow> None | Some m \<Rightarrow> Some (a + m)))
     (Some a) data = Some s \<Longrightarrow>
   foldl (\<lambda>acc next. T_add acc (getChannelMean_T next)) (Finite a) (map (map Finite) data)
     = Finite s"
proof (induction data arbitrary: a)
  case Nil
  then show ?case by simp
next
  case (Cons ch data)
  obtain m where m: "getChannelMean ch = Some m"
    by (cases "getChannelMean ch") (auto simp: getChannelMean_def fdiv_def split: if_splits)
  with Cons show ?case
    by (simp add: getChannelMean_T_finite)
qed

lemma rms_channels_T_finite:
  "rms_channels data = Some y \<Longrightarrow> rms_channels_T (map (map Finite) data) = Finite y"
  by (auto simp: rms_channels_def rms_channels_T_def fdiv_def fsqrt_def Let_def
      foldl_T_channels_finite split: if_splits option.splits)

text \<open>
  A NaN sample makes the sum of squares a NaN, and so the result of either
  \<^verbatim>\<open>rms\<close>; the comparison of a NaN with 0 is false.
\<close>

theorem rms_nonneg_counterexample:
  "rms_T [Finite 1, NaN] = NaN
   \<and> \<not> T_ge (rms_T [Finite 1, NaN]) (Finite 0)
   \<and> rms_channels_T [[Finite 1], [NaN]] = NaN
   \<and> \<not> T_ge (rms_channels_T [[Finite 1], [NaN]]) (Finite 0)"
  by (simp add: rms_T_def rms_channels_T_def getChannelMean_T_def)

text \<open>
  C8, amended. For every input sequence, of any length, in which no sample is a NaN,
  the single-sequence \<^verbatim>\<open>rms\<close> returns a value that is at least 0; for every
  sequence of sequences in which no sample is a NaN, so does the multichannel
  \<^verbatim>\<open>rms\<close>; and the multichannel \<^verbatim>\<open>rms\<close> returns 0 when the outer sequence is
  empty or every inner sequence is empty.
\<close>

theorem rms_nonneg_without_NaN:
  "((\<forall>x\<in>set xs. x \<noteq> NaN) \<longrightarrow> T_ge (rms_T xs) (Finite 0))
   \<and> ((\<forall>ch\<in>set data. \<forall>x\<in>set ch. x \<noteq> NaN) \<longrightarrow> T_ge (rms_channels_T data) (Finite 0))
   \<and> (data = [] \<or> (\<forall>ch\<in>set data. ch = []) \<longrightarrow> rms_channels_T data = Finite 0)"
proof (intro conjI impI)
  assume "\<forall>x\<in>set xs. x \<noteq> NaN"
  then show "T_ge (rms_T xs) (Finite 0)"
    by (simp add: rms_T_def foldl_T_squares_nonneg T_div_size_nonneg T_sqrt_nonneg)
next
  assume "\<forall>ch\<in>set data. \<forall>x\<in>set ch. x \<noteq> NaN"
  then show "T_ge (rms_channels_T data) (Finite 0)"
    by (simp add: rms_channels_T_def foldl_T_channel_means_nonneg T_div_size_nonneg
        T_sqrt_nonneg)
next
  assume e: "data = [] \<or> (\<forall>ch\<in>set data. ch = [])"
  show "rms_channels_T data = Finite 0"
  proof (cases "data = []")
    case True
    then show ?thesis by (simp add: rms_channels_T_def)
  next
    case False
    with e have "\<forall>ch\<in>set data. ch = []" by simp
    then have "foldl (\<lambda>acc next. T_add acc (getChannelMean_T next)) (Finite 0) data = Finite 0"
      by (rule foldl_T_empty_channels)
    with False show ?thesis by (simp add: rms_channels_T_def)
  qed
qed

theorem rms_nonneg_without_NaN_witness:
  "T_ge (rms_T [Finite 3, NegInf]) (Finite 0)
   \<and> T_ge (rms_channels_T [[Finite 1, Finite (- 1)], []]) (Finite 0)
   \<and> rms_channels_T [[], []] = Finite 0
   \<and> rms_channels_T [] = Finite 0"
  using rms_nonneg_without_NaN [of "[Finite 3, NegInf]" "[[Finite 1, Finite (- 1)], []]"]
    rms_nonneg_without_NaN [of "[]" "[[], []]"]
    rms_nonneg_without_NaN [of "[]" "[]"]
  by simp

section \<open>Remapping\<close>

text \<open>
  C10. For every \<open>x\<close>, \<open>newMin\<close> and \<open>newMax\<close>, the three-argument \<^verbatim>\<open>remap\<close> is
  \<^verbatim>\<open>lerp\<close> with its arguments reordered: \<open>remap x newMin newMax\<close> equals
  \<open>lerp newMin newMax x\<close>.
\<close>

theorem remap_is_lerp: "remap x newMin newMax = lerp newMin newMax x"
  by (simp add: remap_def lerp_def)

text \<open>
  C9. The overloads of \<^verbatim>\<open>remap\<close> that take ranges equal the base forms they unpack
  into: with a source and a destination range, the five-argument form on the two minima
  and maxima; with a destination range only, the three-argument form on its minimum and
  maximum.
\<close>

theorem remap_range_overloads:
  "remap_ranges x srcRange newRange =
     remap5 x (range_min srcRange) (range_max srcRange) (range_min newRange) (range_max newRange)
   \<and> remap_range x newRange = remap x (range_min newRange) (range_max newRange)"
  by (simp add: remap_ranges_def remap_range_def)

text \<open>
  C7. With the same range \<open>[lo, hi]\<close>, \<open>lo \<noteq> hi\<close>, as source and as destination, the
  five-argument \<^verbatim>\<open>remap\<close> returns its argument: exactly, in exact arithmetic, and for
  every \<open>x\<close>, in particular for every \<open>x\<close> between \<open>lo\<close> and \<open>hi\<close>.
\<close>

theorem remap5_same_range_identity: "lo \<noteq> hi \<Longrightarrow> remap5 x lo hi lo hi = Some x"
  by (simp add: remap5_def fdiv_def remap_def)

theorem remap5_same_range_identity_witness:
  "remap5 1 0 2 0 2 = Some 1 \<and> remap5 (-3) (-3) 5 (-3) 5 = Some (-3)"
  using remap5_same_range_identity [of 0 2 1] remap5_same_range_identity [of "-3" 5 "-3"]
  by simp

text \<open>A degenerate source range is not guarded: the result is not finite.\<close>

lemma remap5_degenerate: "remap5 x lo lo newMin newMax = None"
  by (simp add: remap5_def fdiv_def)

section \<open>The guard of sinc\<close>

text \<open>
  C6. For every \<open>x\<close> and every floating type \<^verbatim>\<open>T\<close>: when \<open>\<bar>x\<bar>\<close> is below the
  epsilon, which is \<^verbatim>\<open>1e-6\<close> cast to \<^verbatim>\<open>T\<close>, \<^verbatim>\<open>sinc\<close> returns exactly 1;
  otherwise it returns \<open>sin (pi * x) / (pi * x)\<close>, a division by a number that is not
  zero. In particular \<^verbatim>\<open>sinc(0)\<close> is 1. The epsilon is \<open>8796093 / 2\<^sup>4\<^sup>3\<close> for
  \<^verbatim>\<open>float\<close> and \<open>4722366482869645 / 2\<^sup>7\<^sup>2\<close> for \<^verbatim>\<open>double\<close> and
  \<^verbatim>\<open>long double\<close>: positive, and below \<open>10\<^sup>-\<^sup>6\<close>.
\<close>

theorem sinc_guarded:
  "(\<bar>x\<bar> < epsilon T \<longrightarrow> sinc T x = Some 1)
   \<and> (\<not> \<bar>x\<bar> < epsilon T \<longrightarrow> sinc T x = Some (sin (pi * x) / (pi * x)))
   \<and> sinc T 0 = Some 1
   \<and> epsilon Float = 8796093 / 2 ^ 43
   \<and> epsilon Double = 4722366482869645 / 2 ^ 72
   \<and> epsilon LongDouble = 4722366482869645 / 2 ^ 72
   \<and> 0 < epsilon T \<and> epsilon T < 1 / 1000000"
proof -
  have pos: "0 < epsilon T" and below: "epsilon T < 1 / 1000000"
    by (cases T; simp add: epsilon_def)+
  have small: "\<bar>x\<bar> < epsilon T \<longrightarrow> sinc T x = Some 1"
    by (simp add: sinc_def)
  have large: "\<not> \<bar>x\<bar> < epsilon T \<longrightarrow> sinc T x = Some (sin (pi * x) / (pi * x))"
  proof
    assume g: "\<not> \<bar>x\<bar> < epsilon T"
    with pos have "x \<noteq> 0" by auto
    with g show "sinc T x = Some (sin (pi * x) / (pi * x))"
      by (simp add: sinc_def fdiv_def Let_def mult.commute)
  qed
  have zero: "sinc T 0 = Some 1"
    using pos by (simp add: sinc_def)
  have vals: "epsilon Float = 8796093 / 2 ^ 43" "epsilon Double = 4722366482869645 / 2 ^ 72"
    "epsilon LongDouble = 4722366482869645 / 2 ^ 72"
    by (simp_all add: epsilon_def)
  from small large zero vals pos below show ?thesis by blast
qed

theorem sinc_guarded_witness:
  "sinc Double (1 / 2) = Some (2 / pi)
   \<and> sinc Float (1 / 2000000) = Some 1
   \<and> sinc Double (1 / 1000000) = Some (sin (pi * (1 / 1000000)) / (pi * (1 / 1000000)))"
proof -
  have a: "\<not> \<bar>1 / 2 :: real\<bar> < epsilon Double"
    by (simp add: epsilon_def)
  have b: "\<bar>1 / 2000000 :: real\<bar> < epsilon Float"
    by (simp add: epsilon_def)
  have c: "\<not> \<bar>1 / 1000000 :: real\<bar> < epsilon Double"
    by (simp add: epsilon_def)
  show ?thesis
    using a b c sinc_guarded [of "1 / 2" Double] sinc_guarded [of "1 / 2000000" Float]
      sinc_guarded [of "1 / 1000000" Double]
    by simp
qed

section \<open>The complex view of an interleaved buffer\<close>

lemma interleaved_cells:
  "map (\<lambda>i. mem (p + i)) [0..<2 * n] =
   concat (map (\<lambda>i. [mem (p + 2 * i), mem (p + 2 * i + 1)]) [0..<n])"
  by (induction n) simp_all

text \<open>
  C3. For a buffer of \<open>N\<close> real values with \<open>N\<close> even, \<^verbatim>\<open>interleavedToComplexView\<close>
  returns, in either build, a view of exactly \<open>N div 2\<close> complex values at the same base
  address in which, for every \<open>i < N div 2\<close>, complex element \<open>i\<close> has real element
  \<open>2 * i\<close> as its real part and real element \<open>2 * i + 1\<close> as its imaginary part. Evenness
  is checked by the assertion only: on an odd \<open>N\<close> the debug build fails the assertion and
  the release build returns the view of \<open>N div 2\<close> elements with no check.
\<close>

theorem interleavedToComplexView_layout:
  "(span_size d mod 2 = 0 \<longrightarrow>
      (\<exists>v. interleavedToComplexView b d = Inr v
         \<and> cspan_data v = span_data d
         \<and> cspan_size v = span_size d div 2
         \<and> (\<forall>i<span_size d div 2. \<exists>re im.
               span_at mem d (2 * i) = Some re
             \<and> span_at mem d (2 * i + 1) = Some im
             \<and> complex_span_at mem v i = Some (Complex re im))))
   \<and> (span_size d mod 2 \<noteq> 0 \<longrightarrow>
        interleavedToComplexView Debug d = Inl AssertionFailed
      \<and> interleavedToComplexView Release d =
          Inr \<lparr>cspan_data = span_data d, cspan_size = span_size d div 2\<rparr>)"
proof (intro conjI impI)
  assume even: "span_size d mod 2 = 0"
  let ?v = "\<lparr>cspan_data = span_data d, cspan_size = span_size d div 2\<rparr>"
  have r: "interleavedToComplexView b d = Inr ?v"
    using even by (simp add: interleavedToComplexView_def)
  have "\<exists>re im. span_at mem d (2 * i) = Some re \<and> span_at mem d (2 * i + 1) = Some im
          \<and> complex_span_at mem ?v i = Some (Complex re im)"
    if "i < span_size d div 2" for i
  proof -
    from that even have "2 * i + 1 < span_size d" by presburger
    with that show ?thesis by (simp add: span_at_def complex_span_at_def)
  qed
  with r show "\<exists>v. interleavedToComplexView b d = Inr v
         \<and> cspan_data v = span_data d
         \<and> cspan_size v = span_size d div 2
         \<and> (\<forall>i<span_size d div 2. \<exists>re im.
               span_at mem d (2 * i) = Some re
             \<and> span_at mem d (2 * i + 1) = Some im
             \<and> complex_span_at mem v i = Some (Complex re im))"
    by (intro exI [of _ ?v]) simp
next
  assume "span_size d mod 2 \<noteq> 0"
  then show "interleavedToComplexView Debug d = Inl AssertionFailed"
    by (simp add: interleavedToComplexView_def)
next
  show "interleavedToComplexView Release d =
          Inr \<lparr>cspan_data = span_data d, cspan_size = span_size d div 2\<rparr>"
    by (simp add: interleavedToComplexView_def)
qed

theorem interleavedToComplexView_layout_witness:
  "interleavedToComplexView Debug \<lparr>span_data = 16, span_size = 4\<rparr>
     = Inr \<lparr>cspan_data = 16, cspan_size = 2\<rparr>
   \<and> span_at (\<lambda>a. real a) \<lparr>span_data = 16, span_size = 4\<rparr> 2 = Some 18
   \<and> span_at (\<lambda>a. real a) \<lparr>span_data = 16, span_size = 4\<rparr> 3 = Some 19
   \<and> complex_span_at (\<lambda>a. real a) \<lparr>cspan_data = 16, cspan_size = 2\<rparr> 1 = Some (Complex 18 19)
   \<and> interleavedToComplexView Debug \<lparr>span_data = 16, span_size = 5\<rparr> = Inl AssertionFailed
   \<and> interleavedToComplexView Release \<lparr>span_data = 16, span_size = 5\<rparr>
     = Inr \<lparr>cspan_data = 16, cspan_size = 2\<rparr>"
  using interleavedToComplexView_layout [of "\<lparr>span_data = 16, span_size = 4\<rparr>" Debug "\<lambda>a. real a"]
    interleavedToComplexView_layout [of "\<lparr>span_data = 16, span_size = 5\<rparr>" Debug "\<lambda>a. real a"]
  by (simp add: interleavedToComplexView_def complex_span_at_def span_at_def)

section \<open>The interleaved view of a complex buffer\<close>

text \<open>
  C4. For a buffer of \<open>M\<close> complex values, whatever \<open>M\<close> is, \<^verbatim>\<open>complexViewToInterleaved\<close>
  returns a view (the function has no failure and no assertion) of exactly
  \<open>2 * M\<close> real values at the same base address, showing the real and imaginary parts
  interleaved in element order: \<open>re\<^sub>0, im\<^sub>0, re\<^sub>1, im\<^sub>1, \<dots>\<close>.
\<close>

theorem complexViewToInterleaved_layout:
  "span_data (complexViewToInterleaved d) = cspan_data d
   \<and> span_size (complexViewToInterleaved d) = 2 * cspan_size d
   \<and> span_elems mem (complexViewToInterleaved d) =
       concat (map (\<lambda>c. [Re c, Im c]) (complex_span_elems mem d))
   \<and> (\<forall>i<cspan_size d. \<exists>c. complex_span_at mem d i = Some c
          \<and> span_at mem (complexViewToInterleaved d) (2 * i) = Some (Re c)
          \<and> span_at mem (complexViewToInterleaved d) (2 * i + 1) = Some (Im c))"
proof -
  let ?v = "complexViewToInterleaved d"
  have d: "span_data ?v = cspan_data d" and s: "span_size ?v = 2 * cspan_size d"
    by (simp_all add: complexViewToInterleaved_def)
  have l: "span_elems mem ?v = concat (map (\<lambda>c. [Re c, Im c]) (complex_span_elems mem d))"
    using interleaved_cells [of mem "cspan_data d" "cspan_size d"]
    by (simp add: span_elems_def complex_span_elems_def d s comp_def mult.commute)
  have e: "\<forall>i<cspan_size d. \<exists>c. complex_span_at mem d i = Some c
          \<and> span_at mem ?v (2 * i) = Some (Re c)
          \<and> span_at mem ?v (2 * i + 1) = Some (Im c)"
    by (simp add: complex_span_at_def span_at_def d s)
  from d s l e show ?thesis by blast
qed

theorem complexViewToInterleaved_layout_witness:
  "complexViewToInterleaved \<lparr>cspan_data = 8, cspan_size = 3\<rparr> = \<lparr>span_data = 8, span_size = 6\<rparr>
   \<and> complex_span_at (\<lambda>a. real a) \<lparr>cspan_data = 8, cspan_size = 3\<rparr> 2 = Some (Complex 12 13)
   \<and> span_at (\<lambda>a. real a) (complexViewToInterleaved \<lparr>cspan_data = 8, cspan_size = 3\<rparr>) 4 = Some 12
   \<and> span_at (\<lambda>a. real a) (complexViewToInterleaved \<lparr>cspan_data = 8, cspan_size = 3\<rparr>) 5 = Some 13"
  using complexViewToInterleaved_layout [of "\<lparr>cspan_data = 8, cspan_size = 3\<rparr>" "\<lambda>a. real a"]
  by (simp add: complexViewToInterleaved_def complex_span_at_def span_at_def)

section \<open>There and back\<close>

text \<open>
  C2. For every buffer \<open>b\<close> of real values whose length is even, taking the complex view
  and then the interleaved view of it gives \<open>b\<close> back: the same base address and the same
  length.
\<close>

theorem view_round_trip:
  "span_size b mod 2 = 0 \<Longrightarrow>
     \<exists>v. interleavedToComplexView bm b = Inr v
       \<and> complexViewToInterleaved v = b
       \<and> span_data (complexViewToInterleaved v) = span_data b
       \<and> span_size (complexViewToInterleaved v) = span_size b"
  by (cases b) (auto simp: interleavedToComplexView_def complexViewToInterleaved_def)

theorem view_round_trip_witness:
  "interleavedToComplexView Debug \<lparr>span_data = 16, span_size = 4\<rparr>
     = Inr \<lparr>cspan_data = 16, cspan_size = 2\<rparr>
   \<and> complexViewToInterleaved \<lparr>cspan_data = 16, cspan_size = 2\<rparr>
     = \<lparr>span_data = 16, span_size = 4\<rparr>"
  using view_round_trip [of "\<lparr>span_data = 16, span_size = 4\<rparr>" Debug]
  by (simp add: interleavedToComplexView_def complexViewToInterleaved_def)

text \<open>
  Evenness is needed: the release build turns an odd-length buffer into a view that has
  lost its last element on the way back.
\<close>

lemma odd_length_round_trip:
  "span_size b mod 2 \<noteq> 0 \<Longrightarrow> interleavedToComplexView Release b = Inr v \<Longrightarrow>
     span_size (complexViewToInterleaved v) = span_size b - 1"
  by (auto simp: interleavedToComplexView_def complexViewToInterleaved_def) presburger

end
